theory Spec2Isabelle
  imports Main
begin

section \<open>The packaging manifest\<close>

text \<open>
  The manifest (\<^verbatim>\<open>src/unnamed/part_000\<close>, a poetry \<^verbatim>\<open>pyproject.toml\<close>) is a
  document in the toml format. A value is a string, a boolean, an integer or an array; a
  table is its list of \<^verbatim>\<open>key = value\<close> lines, and the document is the list of its tables
  under their headers, both in the order of the file.
\<close>

datatype toml_value =
    TString string
  | TBool bool
  | TInteger int
  | TArray "toml_value list"

type_synonym toml_table = "(string \<times> toml_value) list"

type_synonym toml_document = "(string \<times> toml_table) list"

text \<open>
  The manifest, table by table. \<^verbatim>\<open>tool.poetry.packages\<close>, which the file writes
  with doubled brackets, is an array of tables with one element; it is listed under its
  header like the others.
\<close>

definition build_system :: toml_table where
  \<open>build_system =
    [(''build-backend'', TString ''poetry.core.masonry.api''),
     (''requires'', TArray [TString ''poetry-core''])]\<close>

definition tool_poetry :: toml_table where
  \<open>tool_poetry =
    [(''authors'', TArray
        [TString ''Apostolos Filippas <apostolos@expectedparrot.com>'',
         TString ''John Horton <john@expectedparrot.com>'',
         TString ''Robin Horton <robin@expectedparrot.com>'']),
     (''classifiers'', TArray
        [TString ''Topic :: Scientific/Engineering :: Artificial Intelligence'',
         TString ''Topic :: Software Development :: Libraries :: Application Frameworks'',
         TString ''Topic :: Software Development :: Libraries :: Python Modules'']),
     (''description'', TString ''Create and analyze LLM-based surveys''),
     (''documentation'', TString ''https://docs.expectedparrot.com''),
     (''homepage'', TString ''https://www.expectedparrot.com/''),
     (''keywords'', TArray
        [TString ''LLM'', TString ''social science'', TString ''surveys'',
         TString ''user research'']),
     (''license'', TString ''MIT''),
     (''name'', TString ''edsl''),
     (''readme'', TString ''README.md''),
     (''version'', TString ''0.1.28.dev1'')]\<close>

definition tool_poetry_dependencies :: toml_table where
  \<open>tool_poetry_dependencies =
    [(''python'', TString ''>=3.9.1,<3.13''),
     (''numpy'', TString ''^1.22''),
     (''sqlalchemy'', TString ''^2.0.23''),
     (''python-dotenv'', TString ''^1.0.0''),
     (''openai'', TString ''^1.4.0''),
     (''jinja2'', TString ''^3.1.2''),
     (''rich'', TString ''^13.7.0''),
     (''simpleeval'', TString ''^0.9.13''),
     (''jupyter'', TString ''^1.0.0''),
     (''pandas'', TString ''^2.1.4''),
     (''tenacity'', TString ''^8.2.3''),
     (''python-docx'', TString ''^1.1.0''),
     (''nest-asyncio'', TString ''^1.5.9''),
     (''aiohttp'', TString ''^3.9.1''),
     (''markdown2'', TString ''^2.4.11''),
     (''pydot'', TString ''^2.0.0''),
     (''anthropic'', TString ''^0.23.1''),
     (''pygments'', TString ''^2.17.2''),
     (''matplotlib'', TString ''^3.8.4''),
     (''pymupdf'', TString ''^1.24.4''),
     (''restrictedpython'', TString ''^7.1'')]\<close>

definition tool_poetry_dependencies_black :: toml_table where
  \<open>tool_poetry_dependencies_black =
    [(''extras'', TArray [TString ''jupyter'']),
     (''version'', TString ''^24.4.2'')]\<close>

definition tool_poetry_group_dev_dependencies :: toml_table where
  \<open>tool_poetry_group_dev_dependencies =
    [(''coverage'', TString ''^7.3.3''),
     (''mypy'', TString ''^1.7.1''),
     (''myst-parser'', TString ''^3.0.1''),
     (''nbformat'', TString ''^5.9.2''),
     (''nbsphinx'', TString ''^0.9.3''),
     (''pre-commit'', TString ''^3.6.0''),
     (''pydocstyle'', TString ''^6.3.0''),
     (''pylint'', TString ''^3.1.0''),
     (''pytest'', TString ''^7.4.3''),
     (''pytest-asyncio'', TString ''^0.23.5''),
     (''pytest-env'', TString ''^1.1.3''),
     (''pytest-html'', TString ''^4.1.1''),
     (''pytest-mock'', TString ''^3.12.0''),
     (''pytest-profiling'', TString ''^1.7.0''),
     (''pytest-xdist'', TString ''^3.5.0''),
     (''sphinx'', TString ''^7.2.6''),
     (''sphinx-copybutton'', TString ''^0.5.2''),
     (''sphinx-fontawesome'', TString ''^0.0.6''),
     (''sphinx-rtd-theme'', TString ''^2.0.0''),
     (''toml'', TString ''^0.10.2''),
     (''toml-sort'', TString ''^0.23.1'')]\<close>

definition tool_poetry_packages :: toml_table where
  \<open>tool_poetry_packages = [(''include'', TString ''edsl'')]\<close>

definition tool_tomlsort :: toml_table where
  \<open>tool_tomlsort =
    [(''all'', TBool True),
     (''in_place'', TBool True),
     (''spaces_before_inline_comment'', TInteger 2),
     (''spaces_indent_inline_array'', TInteger 4),
     (''trailing_comma_inline_array'', TBool True)]\<close>

definition tool_tomlsort_overrides :: toml_table where
  \<open>tool_tomlsort_overrides = [(''table_keys'', TBool False)]\<close>

definition pyproject :: toml_document where
  \<open>pyproject =
    [(''build-system'', build_system),
     (''tool.poetry'', tool_poetry),
     (''tool.poetry.dependencies'', tool_poetry_dependencies),
     (''tool.poetry.dependencies.black'', tool_poetry_dependencies_black),
     (''tool.poetry.group.dev.dependencies'', tool_poetry_group_dev_dependencies),
     (''tool.poetry.packages'', tool_poetry_packages),
     (''tool.tomlsort'', tool_tomlsort),
     (''tool.tomlsort.overrides."tool.poetry.dependencies"'', tool_tomlsort_overrides)]\<close>

text \<open>
  Reading the manifest. \<open>table d h\<close> is the table under the header \<open>h\<close> (\<open>None\<close> when the
  document has none); \<open>package_name\<close> is the \<^verbatim>\<open>name\<close> key of \<^verbatim>\<open>[tool.poetry]\<close>.
\<close>

definition table :: "toml_document \<Rightarrow> string \<Rightarrow> toml_table option" where
  "table d h = map_of d h"

definition package_name :: "toml_document \<Rightarrow> toml_value option" where
  "package_name d =
     (case table d ''tool.poetry'' of None \<Rightarrow> None | Some t \<Rightarrow> map_of t ''name'')"

text \<open>
  A package is a dependency of the project when \<^verbatim>\<open>[tool.poetry.dependencies]\<close> has a
  key of its name (the value is the version constraint), or when the document has a
  sub-table \<^verbatim>\<open>[tool.poetry.dependencies.<name>]\<close>, as it has for \<^verbatim>\<open>black\<close>.
  \<open>dependency d n\<close> is the version constraint of \<open>n\<close>, or \<open>None\<close> when the manifest
  does not declare \<open>n\<close>. The development group
  \<^verbatim>\<open>[tool.poetry.group.dev.dependencies]\<close> is a different table and is not consulted.
  (The key \<^verbatim>\<open>python\<close> of the table constrains the interpreter; it is kept where the
  file has it.)
\<close>

definition dependency :: "toml_document \<Rightarrow> string \<Rightarrow> toml_value option" where
  "dependency d n =
     (case table d ''tool.poetry.dependencies'' of
        None \<Rightarrow> None
      | Some t \<Rightarrow>
          (case map_of t n of
             Some v \<Rightarrow> Some v
           | None \<Rightarrow>
               (case table d (''tool.poetry.dependencies.'' @ n) of
                  None \<Rightarrow> None
                | Some s \<Rightarrow> map_of s ''version'')))"

section \<open>The developer Makefile\<close>

text \<open>
  \<^verbatim>\<open>src/Makefile\<close> is a list of rules. No rule of this file has prerequisites, so a rule
  is its target, the help text after \<^verbatim>\<open>##\<close> on the target line (what \<^verbatim>\<open>make help\<close>
  prints; empty when the line has none) and its recipe. A recipe is a list of logical
  lines, each run by a shell of its own. A logical line that the file continues over
  several physical lines with a trailing backslash is written here as the shell reads it,
  on one line: the backslash and the line break, with the blanks before and after them,
  are one space. A backslash inside a command is the character \<open>CHR 0x5C\<close>. Variable
  references (\<^verbatim>\<open>$(term)\<close>, \<^verbatim>\<open>$$file\<close>) stay as the file writes them.
\<close>

record rule =
  target :: string
  descr :: string
  recipe :: "string list"

record makefile =
  phony :: "string list"
  rules :: "rule list"

text \<open>The rules, in the order of the file.\<close>

definition rule_help :: rule where
  \<open>rule_help = \<lparr>
    target = ''help'',
    descr = ''Show this helpful message'',
    recipe =
    [''@awk 'BEGIN {FS = ":.*?## "} /^[a-zA-Z_-]+:.*?## / {printf "  '' @ [CHR 0x5C] @ ''033[33m%-25s'' @ [CHR 0x5C] @ ''033[0m %s'' @ [CHR 0x5C] @ ''n", $$1, $$2} /^##@/ {printf "'' @ [CHR 0x5C] @ ''n'' @ [CHR 0x5C] @ ''033[0;32m%s'' @ [CHR 0x5C] @ ''033[0m'' @ [CHR 0x5C] @ ''n", substr($$0, 4)} ' $(MAKEFILE_LIST)'']\<rparr>\<close>

definition rule_install :: rule where
  \<open>rule_install = \<lparr>
    target = ''install'',
    descr = ''Install all project deps and create a venv (local)'',
    recipe =
    [''make clean-all'',
     ''@echo "Creating a venv from pyproject.toml and installing deps using poetry..."'',
     ''poetry install --with dev'',
     ''@echo "All deps installed and venv created."'']\<rparr>\<close>

definition rule_find :: rule where
  \<open>rule_find = \<lparr>
    target = ''find'',
    descr = ''Search for a pattern. Use `make find term="pattern"`'',
    recipe =
    [''@find . -type d '' @ [CHR 0x5C] @ ''( -name '.venv' -o -name '__pycache__' '' @ [CHR 0x5C] @ '') -prune -o -type f -print | xargs grep -l "$(term)"'']\<rparr>\<close>

definition rule_clean :: rule where
  \<open>rule_clean = \<lparr>
    target = ''clean'',
    descr = ''Clean temp files'',
    recipe =
    [''@echo "Cleaning tempfiles..."'',
     ''[ ! -f .coverage ] || rm .coverage'',
     ''[ ! -d .edsl_cache ] || rm  -rf .edsl_cache'',
     ''[ ! -d .mypy_cache ] || rm -rf .mypy_cache'',
     ''[ ! -d .temp ] || rm -rf .temp'',
     ''[ ! -d dist ] || rm -rf dist'',
     ''[ ! -d htmlcov ] || rm -rf htmlcov'',
     ''[ ! -d prof ] || rm -rf prof'',
     ''find . -type d -name '.venv' -prune -o -type f -name '*.db' -exec rm -rf {} +'',
     ''find . -type d -name '.venv' -prune -o -type f -name '*.db.bak' -exec rm -rf {} +'',
     ''find . -type d -name '.venv' -prune -o -type f -name '*.log' -exec rm -rf {} +'',
     ''find . -type d -name '.venv' -prune -o -type d -name '.pytest_cache' -exec rm -rf {} +'',
     ''find . -type d -name '.venv' -prune -o -type d -name '__pycache__' -exec rm -rf {} +'']\<rparr>\<close>

definition rule_clean_docs :: rule where
  \<open>rule_clean_docs = \<lparr>
    target = ''clean-docs'',
    descr = ''Clean documentation files'',
    recipe =
    [''[ ! -d .temp/docs ] || rm -rf .temp/docs'']\<rparr>\<close>

definition rule_clean_test :: rule where
  \<open>rule_clean_test = \<lparr>
    target = ''clean-test'',
    descr = ''Clean test files'',
    recipe =
    [''[ ! -d dist ] || rm -rf dist'',
     ''[ ! -d htmlcov ] || rm -rf htmlcov'',
     ''[ ! -d prof ] || rm -rf prof'',
     ''[ ! -d tests/temp_outputs ] || rm -rf tests/temp_outputs'',
     ''[ ! -f tests/edsl_cache_test.db ] || rm tests/edsl_cache_test.db'',
     ''[ ! -f tests/interview.log ] || rm tests/interview.log'',
     ''[ ! -f tests/test_pytest_report.html ] || rm tests/test_pytest_report.html'',
     ''@for file in *.html; do [ ! -f "$$file" ] || rm "$$file"; done'',
     ''@for file in *.jsonl; do [ ! -f "$$file" ] || rm "$$file"; done'']\<rparr>\<close>

definition rule_clean_all :: rule where
  \<open>rule_clean_all = \<lparr>
    target = ''clean-all'',
    descr = ''Clean everything (including the venv)'',
    recipe =
    [''@if [ -n "$$VIRTUAL_ENV" ]; then echo "Your virtual environment is active. Please deactivate it."; exit 1; fi'',
     ''@echo "Cleaning tempfiles..."'',
     ''@make clean'',
     ''@echo "Cleaning testfiles..."'',
     ''@make clean-test'',
     ''@echo "Cleaning the venv..."'',
     ''@[ ! -d .venv ] || rm -rf .venv'',
     ''@echo "Done!"'']\<rparr>\<close>

definition rule_publish :: rule where
  \<open>rule_publish = \<lparr>
    target = ''publish'',
    descr = ''Publish the package to PyPI (requires credentials)'',
    recipe =
    [''@version=$$(grep "^version =" pyproject.toml | head -1 | sed 's/version = "'' @ [CHR 0x5C] @ ''(.*'' @ [CHR 0x5C] @ '')"/'' @ [CHR 0x5C] @ ''1/'); echo "You are about to publish EDSL version '$$version' to PyPI."'',
     ''@read -p "Are you sure you want to continue? (y/n) " answer; if [ "$$answer" != "y" ]; then echo "Publish canceled."; exit 1; fi'',
     ''poetry build'',
     ''poetry publish'']\<rparr>\<close>

definition rule_backup :: rule where
  \<open>rule_backup = \<lparr>
    target = ''backup'',
    descr = ''Backup the code to `edsl/.backups/`'',
    recipe =
    [''TIMESTAMP=$$(date +"%Y%m%d_%H%M%S"); BACKUP_NAME=$(PROJECT_NAME)_$${TIMESTAMP}.tar.gz; mkdir -p "./.backups"; tar -czf $${BACKUP_NAME} --exclude="*pkl" --exclude="*tar.gz" --exclude="*db" --exclude="*csv" --exclude="./.*" --exclude="node_modules" --exclude="__pycache__" .; mv $${BACKUP_NAME} "./.backups"; echo "Backup created: $${BACKUP_NAME}"'']\<rparr>\<close>

definition rule_bump :: rule where
  \<open>rule_bump = \<lparr>
    target = ''bump'',
    descr = ''Bump the version of the package'',
    recipe =
    [''@python scripts/bump_version.py $(filter-out $@,$(MAKECMDGOALS))'']\<rparr>\<close>

definition rule_match_anything :: rule where
  \<open>rule_match_anything = \<lparr>
    target = ''%'',
    descr = '''',
    recipe =
    [''@:'']\<rparr>\<close>

definition rule_docs :: rule where
  \<open>rule_docs = \<lparr>
    target = ''docs'',
    descr = ''Generate documentation'',
    recipe =
    [''make clean-docs'',
     ''mkdir -p .temp/docs'',
     ''poetry export -f requirements.txt --with dev --output .temp/docs/requirements.txt'',
     ''poetry export -f requirements.txt --with dev --output docs/requirements.txt'',
     ''sphinx-build -b html docs .temp/docs'']\<rparr>\<close>

definition rule_docs_view :: rule where
  \<open>rule_docs_view = \<lparr>
    target = ''docs-view'',
    descr = ''View documentation'',
    recipe =
    [''@UNAME=`uname`; if [ "$$UNAME" = "Darwin" ]; then open .temp/docs/index.html; else firefox .temp/docs/index.html; fi'']\<rparr>\<close>

definition rule_docstrings :: rule where
  \<open>rule_docstrings = \<lparr>
    target = ''docstrings'',
    descr = ''Check docstrings'',
    recipe =
    [''pydocstyle edsl'']\<rparr>\<close>

definition rule_format :: rule where
  \<open>rule_format = \<lparr>
    target = ''format'',
    descr = ''Run code autoformatters (black).'',
    recipe =
    [''pre-commit install'',
     ''pre-commit run black-jupyter --all-files --all'']\<rparr>\<close>

definition rule_lint :: rule where
  \<open>rule_lint = \<lparr>
    target = ''lint'',
    descr = ''Run code linters (flake8, pylint, mypy).'',
    recipe =
    [''mypy edsl'']\<rparr>\<close>

definition rule_visualize :: rule where
  \<open>rule_visualize = \<lparr>
    target = ''visualize'',
    descr = ''Visualize the repo structure'',
    recipe =
    [''python scripts/visualize_structure.py'',
     ''@UNAME=`uname`; if [ "$$UNAME" = "Darwin" ]; then open .temp/visualize_structure/index.html; else firefox .temp/visualize_structure/index.html; fi'']\<rparr>\<close>

definition rule_test :: rule where
  \<open>rule_test = \<lparr>
    target = ''test'',
    descr = ''Run regular tests (no Coop tests) '',
    recipe =
    [''make clean-test'',
     ''pytest -xv tests --nocoop'']\<rparr>\<close>

definition rule_test_coop :: rule where
  \<open>rule_test_coop = \<lparr>
    target = ''test-coop'',
    descr = ''Run Coop tests (no regular tests, requires Coop local server running)'',
    recipe =
    [''make clean-test'',
     ''pytest -xv tests --coop'']\<rparr>\<close>

definition rule_test_coverage :: rule where
  \<open>rule_test_coverage = \<lparr>
    target = ''test-coverage'',
    descr = ''Run regular tests and get a coverage report'',
    recipe =
    [''make clean-test'',
     ''poetry run coverage run -m pytest tests --ignore=tests/stress --ignore=tests/coop && poetry run coverage html'',
     ''@UNAME=`uname`; if [ "$$UNAME" = "Darwin" ]; then open htmlcov/index.html; else firefox htmlcov/index.html; fi'']\<rparr>\<close>

definition rule_test_report :: rule where
  \<open>rule_test_report = \<lparr>
    target = ''test-report'',
    descr = ''Run unit tests and view a test report'',
    recipe =
    [''make clean-test'',
     ''pytest -xv tests --nocoop --html=tests/test_pytest_report.html'',
     ''@UNAME=`uname`; if [ "$$UNAME" = "Darwin" ]; then open tests/test_pytest_report.html; else firefox tests/test_pytest_report.html; fi'']\<rparr>\<close>

definition rule_test_data :: rule where
  \<open>rule_test_data = \<lparr>
    target = ''test-data'',
    descr = ''Create serialization test data for the current EDSL version'',
    recipe =
    [''python scripts/create_serialization_test_data.py'']\<rparr>\<close>

definition rule_test_doctests :: rule where
  \<open>rule_test_doctests = \<lparr>
    target = ''test-doctests'',
    descr = ''Run doctests'',
    recipe =
    [''make clean-test'',
     ''pytest --doctest-modules edsl/inference_services'',
     ''pytest --doctest-modules edsl/results'',
     ''pytest --doctest-modules edsl/jobs'',
     ''pytest --doctest-modules edsl/surveys'',
     ''pytest --doctest-modules edsl/agents'',
     ''pytest --doctest-modules edsl/scenarios'',
     ''pytest --doctest-modules edsl/questions'',
     ''pytest --doctest-modules edsl/utilities'',
     ''pytest --doctest-modules edsl/language_models'',
     ''pytest --doctest-modules edsl/data'']\<rparr>\<close>

definition rule_test_integration :: rule where
  \<open>rule_test_integration = \<lparr>
    target = ''test-integration'',
    descr = ''Run integration tests via pytest **consumes API credits**'',
    recipe =
    [''cd integration/printing && python check_printing.py'',
     ''pytest -v integration/test_example_notebooks.py'',
     ''pytest -v integration/test_integration_jobs.py'',
     ''pytest -v integration/test_memory.py'',
     ''pytest -v integration/test_models.py'',
     ''pytest -v integration/test_questions.py'',
     ''pytest -v integration/test_runners.py'']\<rparr>\<close>

definition rule_integration_job_running :: rule where
  \<open>rule_integration_job_running = \<lparr>
    target = ''integration-job-running'',
    descr = '''',
    recipe =
    [''pytest -v --log-cli-level=INFO integration/test_job_running.py'']\<rparr>\<close>

definition rule_integration_tricky_questions :: rule where
  \<open>rule_integration_tricky_questions = \<lparr>
    target = ''integration-tricky-questions'',
    descr = '''',
    recipe =
    [''pytest -v --log-cli-level=INFO integration/test_tricky_questions.py'']\<rparr>\<close>

text \<open>
  The file: its \<^verbatim>\<open>.PHONY\<close> line and its rules. The two variable assignments at its head
  (\<^verbatim>\<open>GIT_ROOT\<close>, \<^verbatim>\<open>PROJECT_NAME\<close>) serve the recipe of \<^verbatim>\<open>backup\<close> only.
\<close>

definition Makefile :: makefile where
  \<open>Makefile = \<lparr>
    phony = [''bump'', ''docs'', ''docstrings'', ''find'', ''help'', ''integration''],
    rules =
    [rule_help, rule_install, rule_find, rule_clean, rule_clean_docs, rule_clean_test,
     rule_clean_all, rule_publish, rule_backup, rule_bump, rule_match_anything, rule_docs,
     rule_docs_view, rule_docstrings, rule_format, rule_lint, rule_visualize, rule_test,
     rule_test_coop, rule_test_coverage, rule_test_report, rule_test_data,
     rule_test_doctests, rule_test_integration, rule_integration_job_running,
     rule_integration_tricky_questions]\<rparr>\<close>

text \<open>
  How \<^verbatim>\<open>make\<close> reads the file. The rule for a goal is the explicit rule of that name.
  A goal without one falls to the match-anything rule \<^verbatim>\<open>%:\<close> when the file has it, unless
  the goal is phony: make does not search the pattern rules for a phony goal.
\<close>

definition find_rule :: "makefile \<Rightarrow> string \<Rightarrow> rule option" where
  "find_rule mf t =
     (case List.find (\<lambda>r. target r = t \<and> target r \<noteq> ''%'') (rules mf) of
        Some r \<Rightarrow> Some r
      | None \<Rightarrow>
          if t \<in> set (phony mf) then None
          else List.find (\<lambda>r. target r = ''%'') (rules mf))"

text \<open>
  A recipe line that starts with \<^verbatim>\<open>@\<close> is not echoed; the command given to the shell is
  the rest of the line. (The other prefixes of make, \<^verbatim>\<open>-\<close> and \<^verbatim>\<open>+\<close>, do not occur in
  this file.)
\<close>

fun command :: "string \<Rightarrow> string" where
  "command (c # cs) = (if c = CHR ''@'' then cs else c # cs)"
| "command [] = []"

text \<open>
  \<open>run_recipe ok ls\<close> runs the lines in order and stops at the first command that fails:
  \<open>ok c\<close> says that the shell running \<open>c\<close> exits with status 0. The result is the list of
  the commands that were run, and whether all of them succeeded.
\<close>

fun run_recipe :: "(string \<Rightarrow> bool) \<Rightarrow> string list \<Rightarrow> string list \<times> bool" where
  "run_recipe ok [] = ([], True)"
| "run_recipe ok (l # ls) =
     (if ok (command l)
      then (case run_recipe ok ls of (cs, r) \<Rightarrow> (command l # cs, r))
      else ([command l], False))"

text \<open>
  \<open>make_goal file_exists ok mf t\<close> is \<^verbatim>\<open>make t\<close>: \<open>file_exists f\<close> says that the
  working directory has a file or directory named \<open>f\<close>. A phony goal without a rule has
  nothing to be done, and make succeeds; any other goal without a rule is an error. A
  goal whose rule has no prerequisites is remade when it is phony or when no file of its
  name exists; otherwise it is up to date and nothing is run.
\<close>

definition make_goal ::
  "(string \<Rightarrow> bool) \<Rightarrow> (string \<Rightarrow> bool) \<Rightarrow> makefile \<Rightarrow> string \<Rightarrow> string list \<times> bool" where
  "make_goal file_exists ok mf t =
     (case find_rule mf t of
        None \<Rightarrow> ([], t \<in> set (phony mf))
      | Some r \<Rightarrow>
          if t \<in> set (phony mf) \<or> \<not> file_exists t
          then run_recipe ok (recipe r)
          else ([], True))"

section \<open>Properties of the manifest\<close>

text \<open>
  C4. The packaging manifest declares each of aiohttp, tenacity, sqlalchemy, simpleeval,
  restrictedpython and jinja2 as a dependency of the edsl package: the project's name is
  \<^verbatim>\<open>edsl\<close>, and the dependency table gives each of the six a version constraint.
\<close>

theorem manifest_declares_dependencies:
  "package_name pyproject = Some (TString ''edsl'')
   \<and> dependency pyproject ''aiohttp'' = Some (TString ''^3.9.1'')
   \<and> dependency pyproject ''tenacity'' = Some (TString ''^8.2.3'')
   \<and> dependency pyproject ''sqlalchemy'' = Some (TString ''^2.0.23'')
   \<and> dependency pyproject ''simpleeval'' = Some (TString ''^0.9.13'')
   \<and> dependency pyproject ''restrictedpython'' = Some (TString ''^7.1'')
   \<and> dependency pyproject ''jinja2'' = Some (TString ''^3.1.2'')"
  by (simp add: package_name_def dependency_def table_def pyproject_def
        tool_poetry_def tool_poetry_dependencies_def)

section \<open>Properties of the Makefile\<close>

text \<open>The target of each rule.\<close>

lemma rule_targets:
  "target rule_help = ''help''"
  "target rule_install = ''install''"
  "target rule_find = ''find''"
  "target rule_clean = ''clean''"
  "target rule_clean_docs = ''clean-docs''"
  "target rule_clean_test = ''clean-test''"
  "target rule_clean_all = ''clean-all''"
  "target rule_publish = ''publish''"
  "target rule_backup = ''backup''"
  "target rule_bump = ''bump''"
  "target rule_match_anything = ''%''"
  "target rule_docs = ''docs''"
  "target rule_docs_view = ''docs-view''"
  "target rule_docstrings = ''docstrings''"
  "target rule_format = ''format''"
  "target rule_lint = ''lint''"
  "target rule_visualize = ''visualize''"
  "target rule_test = ''test''"
  "target rule_test_coop = ''test-coop''"
  "target rule_test_coverage = ''test-coverage''"
  "target rule_test_report = ''test-report''"
  "target rule_test_data = ''test-data''"
  "target rule_test_doctests = ''test-doctests''"
  "target rule_test_integration = ''test-integration''"
  "target rule_integration_job_running = ''integration-job-running''"
  "target rule_integration_tricky_questions = ''integration-tricky-questions''"
  by (simp_all add:
      rule_help_def rule_install_def rule_find_def rule_clean_def rule_clean_docs_def
      rule_clean_test_def rule_clean_all_def rule_publish_def rule_backup_def rule_bump_def
      rule_match_anything_def rule_docs_def rule_docs_view_def rule_docstrings_def
      rule_format_def rule_lint_def rule_visualize_def rule_test_def rule_test_coop_def
      rule_test_coverage_def rule_test_report_def rule_test_data_def rule_test_doctests_def
      rule_test_integration_def rule_integration_job_running_def
      rule_integration_tricky_questions_def)

text \<open>The file gives every target one rule, so no recipe overrides another.\<close>

lemma Makefile_targets_distinct: "distinct (map target (rules Makefile))"
  by (simp add: Makefile_def rule_targets)

text \<open>
  \<^verbatim>\<open>integration\<close> is phony and has no rule of its own: the match-anything rule is not
  applied to it, and \<^verbatim>\<open>make integration\<close> runs nothing.
\<close>

lemma phony_goal_without_rule:
  "find_rule Makefile ''integration'' = None
   \<and> make_goal file_exists ok Makefile ''integration'' = ([], True)"
  by (simp add: make_goal_def find_rule_def Makefile_def rule_targets)

text \<open>When every command succeeds, the whole recipe is run, in the order of the file.\<close>

lemma run_recipe_all_ok: "\<forall>c. ok c \<Longrightarrow> run_recipe ok ls = (map command ls, True)"
  by (induction ls) simp_all

text \<open>
  C7. The Makefile provides targets for testing, documentation generation and publishing:
  when no file named \<^verbatim>\<open>test\<close> or \<^verbatim>\<open>publish\<close> is in the way and every command succeeds,
  \<^verbatim>\<open>make test\<close> runs pytest over \<^verbatim>\<open>tests\<close>, \<^verbatim>\<open>make docs\<close> ends with sphinx-build building
  html from \<^verbatim>\<open>docs\<close>, and \<^verbatim>\<open>make publish\<close> runs four commands of which the last two are
  \<^verbatim>\<open>poetry build\<close> and \<^verbatim>\<open>poetry publish\<close>. The help texts of the three targets say the
  same.
\<close>

theorem Makefile_test_docs_publish:
  assumes "\<not> file_exists ''test''" and "\<not> file_exists ''publish''" and "\<forall>c. ok c"
  shows "make_goal file_exists ok Makefile ''test'' =
           ([''make clean-test'', ''pytest -xv tests --nocoop''], True)
       \<and> make_goal file_exists ok Makefile ''docs'' =
           ([''make clean-docs'',
             ''mkdir -p .temp/docs'',
             ''poetry export -f requirements.txt --with dev --output .temp/docs/requirements.txt'',
             ''poetry export -f requirements.txt --with dev --output docs/requirements.txt'',
             ''sphinx-build -b html docs .temp/docs''], True)
       \<and> length (fst (make_goal file_exists ok Makefile ''publish'')) = 4
       \<and> drop 2 (fst (make_goal file_exists ok Makefile ''publish'')) =
           [''poetry build'', ''poetry publish'']
       \<and> snd (make_goal file_exists ok Makefile ''publish'')
       \<and> map_option descr (find_rule Makefile ''test'') =
           Some ''Run regular tests (no Coop tests) ''
       \<and> map_option descr (find_rule Makefile ''docs'') = Some ''Generate documentation''
       \<and> map_option descr (find_rule Makefile ''publish'') =
           Some ''Publish the package to PyPI (requires credentials)''"
proof -
  have all_ok: "run_recipe ok ls = (map command ls, True)" for ls
    using assms(3) by (rule run_recipe_all_ok)
  have t: "make_goal file_exists ok Makefile ''test'' =
           ([''make clean-test'', ''pytest -xv tests --nocoop''], True)"
    using assms(1)
    by (simp add: make_goal_def find_rule_def Makefile_def rule_targets all_ok)
      (simp add: rule_test_def)
  have d: "make_goal file_exists ok Makefile ''docs'' =
           ([''make clean-docs'',
             ''mkdir -p .temp/docs'',
             ''poetry export -f requirements.txt --with dev --output .temp/docs/requirements.txt'',
             ''poetry export -f requirements.txt --with dev --output docs/requirements.txt'',
             ''sphinx-build -b html docs .temp/docs''], True)"
    by (simp add: make_goal_def find_rule_def Makefile_def rule_targets all_ok)
      (simp add: rule_docs_def)
  have p: "length (fst (make_goal file_exists ok Makefile ''publish'')) = 4
       \<and> drop 2 (fst (make_goal file_exists ok Makefile ''publish'')) =
           [''poetry build'', ''poetry publish'']
       \<and> snd (make_goal file_exists ok Makefile ''publish'')"
    using assms(2)
    by (simp add: make_goal_def find_rule_def Makefile_def rule_targets all_ok)
      (simp add: rule_publish_def)
  have h: "map_option descr (find_rule Makefile ''test'') =
           Some ''Run regular tests (no Coop tests) ''
       \<and> map_option descr (find_rule Makefile ''docs'') = Some ''Generate documentation''
       \<and> map_option descr (find_rule Makefile ''publish'') =
           Some ''Publish the package to PyPI (requires credentials)''"
    by (simp add: find_rule_def Makefile_def rule_targets)
      (simp add: rule_test_def rule_docs_def rule_publish_def)
  from t d p h show ?thesis by blast
qed

text \<open>
  The recipe of \<^verbatim>\<open>publish\<close> asks for confirmation first: when the line that reads the
  answer fails (the answer is not \<^verbatim>\<open>y\<close>), make stops, and nothing is built or published.
\<close>

lemma publish_cancelled:
  assumes "\<not> file_exists ''publish''"
    and "\<not> ok (command (recipe rule_publish ! 1))"
  shows "''poetry build'' \<notin> set (fst (make_goal file_exists ok Makefile ''publish''))
       \<and> ''poetry publish'' \<notin> set (fst (make_goal file_exists ok Makefile ''publish''))
       \<and> \<not> snd (make_goal file_exists ok Makefile ''publish'')"
proof -
  have r: "find_rule Makefile ''publish'' = Some rule_publish"
    by (simp add: find_rule_def Makefile_def rule_targets)
  from assms r show ?thesis
    by (cases "ok (command (recipe rule_publish ! 0))")
      (simp_all add: make_goal_def rule_publish_def)
qed

theorem Makefile_test_docs_publish_witness:
  "\<not> (\<lambda>_. False) ''test'' \<and> \<not> (\<lambda>_. False) ''publish'' \<and> (\<forall>c. (\<lambda>_. True) c)
   \<and> make_goal (\<lambda>_. False) (\<lambda>_. True) Makefile ''test'' =
           ([''make clean-test'', ''pytest -xv tests --nocoop''], True)
   \<and> drop 2 (fst (make_goal (\<lambda>_. False) (\<lambda>_. True) Makefile ''publish'')) =
           [''poetry build'', ''poetry publish'']"
  using Makefile_test_docs_publish [of "\<lambda>_. False" "\<lambda>_. True"] by simp

end
